theory Spec2Isabelle
  imports Complex_Main
begin

section \<open>The donut renderer (src/donut.js)\<close>

text \<open>
  A shallow embedding of the rendering pipeline of \<^verbatim>\<open>src/donut.js\<close>: the vector and
  quaternion algebra, the plotter with its depth buffer, the sweep over the torus and the
  animation state of the donut.

  JavaScript numbers are IEEE 754 doubles. The embedding reads a finite number as a
  \<^typ>\<open>real\<close> and computes exactly, so rounding error is outside the model. The values of
  a JavaScript number that are not finite (\<^verbatim>\<open>NaN\<close> and the two infinities) are modelled
  where the program produces them from finite inputs of moderate size: the sum of squares
  in \<^verbatim>\<open>normalize\<close>, which overflows for a vector longer than about \<open>10\<^sup>1\<^sup>5\<^sup>4\<close>, the
  perspective divide of the plotter and the level of a palette colour. The sums and
  products of the other vector and quaternion operations overflow only within a small
  factor of the largest double, and the statements about the rotation of an arbitrary
  vector keep its components below that.

  A method \<^verbatim>\<open>this.m(args)\<close> of a class \<^verbatim>\<open>C\<close> is the function \<open>C_m this args\<close>, and a
  constructor is \<open>C_new\<close>.
\<close>

subsection \<open>class Vector\<close>

text \<open>
  The fields \<^verbatim>\<open>x\<close>, \<^verbatim>\<open>y\<close>, \<^verbatim>\<open>z\<close> are named \<open>vx\<close>, \<open>vy\<close>, \<open>vz\<close>.

  \<^verbatim>\<open>normalize\<close> scales by \<^verbatim>\<open>1 / Math.sqrt(this.dot(this))\<close>. In doubles the sum of
  squares is \<^verbatim>\<open>Infinity\<close> once it reaches \<open>2\<^sup>1\<^sup>0\<^sup>2\<^sup>4\<close>; then the factor is
  \<^verbatim>\<open>1 / Infinity = 0\<close> and the result is the zero vector, which is the first branch of
  \<open>Vector_normalize\<close>. At the other end the sum of squares rounds to \<open>0\<close> for the zero
  vector and for a vector of tiny components; then the factor is \<^verbatim>\<open>Infinity\<close> and the
  components of the result are \<^verbatim>\<open>Infinity\<close> or \<^verbatim>\<open>NaN\<close>. The embedding has no vector
  with such components (at the zero vector HOL gives the zero vector, \<open>1 / 0 = 0\<close>), so
  every statement below that normalises a vector is about a vector whose sum of squares is
  at least \<open>2\<^sup>-\<^sup>1\<^sup>0\<^sup>2\<^sup>2\<close>, the smallest normal double.
\<close>

record Vector =
  vx :: real
  vy :: real
  vz :: real

definition Vector_scale :: "Vector \<Rightarrow> real \<Rightarrow> Vector" where
  "Vector_scale v s = \<lparr>vx = vx v * s, vy = vy v * s, vz = vz v * s\<rparr>"

definition Vector_dot :: "Vector \<Rightarrow> Vector \<Rightarrow> real" where
  "Vector_dot u v = vx u * vx v + vy u * vy v + vz u * vz v"

definition Vector_cross :: "Vector \<Rightarrow> Vector \<Rightarrow> Vector" where
  "Vector_cross u v =
     \<lparr>vx = vy u * vz v - vz u * vy v,
      vy = vz u * vx v - vx u * vz v,
      vz = vx u * vy v - vy u * vx v\<rparr>"

definition Vector_normalize :: "Vector \<Rightarrow> Vector" where
  "Vector_normalize v =
     (if 2 ^ 1024 \<le> Vector_dot v v then Vector_scale v 0
      else Vector_scale v (1 / sqrt (Vector_dot v v)))"

definition Vector_add :: "Vector \<Rightarrow> Vector \<Rightarrow> Vector" where
  "Vector_add u v = \<lparr>vx = vx u + vx v, vy = vy u + vy v, vz = vz u + vz v\<rparr>"

definition X_AXIS :: Vector where
  "X_AXIS = \<lparr>vx = 1, vy = 0, vz = 0\<rparr>"

definition Y_AXIS :: Vector where
  "Y_AXIS = \<lparr>vx = 0, vy = 1, vz = 0\<rparr>"

definition Z_AXIS :: Vector where
  "Z_AXIS = \<lparr>vx = 0, vy = 0, vz = 1\<rparr>"

subsection \<open>class Quaternion\<close>

record Quaternion =
  scalar :: real
  vector :: Vector

definition Quaternion_forRotation :: "real \<Rightarrow> Vector \<Rightarrow> Quaternion" where
  "Quaternion_forRotation angle axis =
     (let a = angle / 2
      in \<lparr>scalar = cos a, vector = Vector_scale (Vector_normalize axis) (sin a)\<rparr>)"

definition Quaternion_mult :: "Quaternion \<Rightarrow> Quaternion \<Rightarrow> Quaternion" where
  "Quaternion_mult p q =
     \<lparr>scalar = scalar p * scalar q - Vector_dot (vector p) (vector q),
      vector = Vector_add
                 (Vector_add (Vector_scale (vector q) (scalar p))
                             (Vector_scale (vector p) (scalar q)))
                 (Vector_cross (vector p) (vector q))\<rparr>"

definition Quaternion_conjugate :: "Quaternion \<Rightarrow> Quaternion" where
  "Quaternion_conjugate q = \<lparr>scalar = scalar q, vector = Vector_scale (vector q) (- 1)\<rparr>"

definition Quaternion_rotate :: "Quaternion \<Rightarrow> Vector \<Rightarrow> Vector" where
  "Quaternion_rotate q v =
     (let r = \<lparr>scalar = 0, vector = v\<rparr>
      in vector (Quaternion_mult (Quaternion_mult q r) (Quaternion_conjugate q)))"

text \<open>The squared norm of a quaternion, and the distance of a point \<open>p\<close> from the line
  through the origin with unit direction \<open>u\<close>. The program computes neither; the
  statements about rotations and about the torus are written with them.\<close>

definition qnorm2 :: "Quaternion \<Rightarrow> real" where
  "qnorm2 q = scalar q * scalar q + Vector_dot (vector q) (vector q)"

definition axis_distance :: "Vector \<Rightarrow> Vector \<Rightarrow> real" where
  "axis_distance p u = sqrt (Vector_dot p p - Vector_dot p u * Vector_dot p u)"

subsection \<open>JavaScript numbers that need not be finite\<close>

text \<open>
  \<open>js_div u v\<close> is the quotient \<^verbatim>\<open>u / v\<close> of two finite numbers. The real \<open>0\<close> stands for
  both zeros of JavaScript; a nonzero number divided by zero is read with the sign it has
  for \<^verbatim>\<open>+0\<close>, and it is the other infinity for \<^verbatim>\<open>-0\<close>. The plotter treats the
  two infinities alike (its bounds are finite and it rejects both).

  \<^verbatim>\<open>Math.round\<close> returns the nearest integer and, of two that are equally near, the one
  towards \<open>+\<infinity>\<close>; it leaves \<^verbatim>\<open>NaN\<close> and the infinities as they are. A comparison
  with \<^verbatim>\<open>NaN\<close> is false.
\<close>

datatype jsnum = Num real | PInf | NInf | NaN

definition js_div :: "real \<Rightarrow> real \<Rightarrow> jsnum" where
  "js_div u v =
     (if v \<noteq> 0 then Num (u / v)
      else if u = 0 then NaN
      else if 0 < u then PInf else NInf)"

definition Math_round :: "real \<Rightarrow> int" where
  "Math_round r = \<lfloor>r + 1 / 2\<rfloor>"

fun js_round :: "jsnum \<Rightarrow> jsnum" where
  "js_round (Num r) = Num (of_int (Math_round r))"
| "js_round PInf = PInf"
| "js_round NInf = NInf"
| "js_round NaN = NaN"

fun js_lt :: "jsnum \<Rightarrow> real \<Rightarrow> bool" where
  "js_lt (Num r) b = (r < b)"
| "js_lt PInf b = False"
| "js_lt NInf b = True"
| "js_lt NaN b = False"

fun js_gt :: "jsnum \<Rightarrow> real \<Rightarrow> bool" where
  "js_gt (Num r) b = (r > b)"
| "js_gt PInf b = True"
| "js_gt NInf b = False"
| "js_gt NaN b = False"

fun js_sub :: "jsnum \<Rightarrow> real \<Rightarrow> jsnum" where
  "js_sub (Num r) b = Num (r - b)"
| "js_sub PInf b = PInf"
| "js_sub NInf b = NInf"
| "js_sub NaN b = NaN"

fun js_mul :: "jsnum \<Rightarrow> real \<Rightarrow> jsnum" where
  "js_mul (Num r) b = Num (r * b)"
| "js_mul PInf b = (if 0 < b then PInf else if b < 0 then NInf else NaN)"
| "js_mul NInf b = (if 0 < b then NInf else if b < 0 then PInf else NaN)"
| "js_mul NaN b = NaN"

fun js_add :: "jsnum \<Rightarrow> jsnum \<Rightarrow> jsnum" where
  "js_add (Num r) (Num s) = Num (r + s)"
| "js_add NaN _ = NaN"
| "js_add _ NaN = NaN"
| "js_add PInf NInf = NaN"
| "js_add NInf PInf = NaN"
| "js_add PInf _ = PInf"
| "js_add _ PInf = PInf"
| "js_add NInf _ = NInf"
| "js_add _ NInf = NInf"

fun js_max :: "jsnum \<Rightarrow> real \<Rightarrow> jsnum" where
  "js_max (Num r) b = Num (max r b)"
| "js_max PInf b = PInf"
| "js_max NInf b = Num b"
| "js_max NaN b = NaN"

fun js_quot :: "jsnum \<Rightarrow> real \<Rightarrow> jsnum" where
  "js_quot (Num r) b = js_div r b"
| "js_quot PInf b = (if b < 0 then NInf else PInf)"
| "js_quot NInf b = (if b < 0 then PInf else NInf)"
| "js_quot NaN b = NaN"

text \<open>
  \<^verbatim>\<open>new Array(n)\<close> throws a \<^verbatim>\<open>RangeError\<close> unless \<open>n\<close> is an integer from \<open>0\<close> to
  \<open>2\<^sup>3\<^sup>2 - 1\<close>.
\<close>

datatype error = RangeError

definition array_length_ok :: "real \<Rightarrow> bool" where
  "array_length_ok n = (0 \<le> n \<and> n \<le> 2 ^ 32 - 1 \<and> of_int \<lfloor>n\<rfloor> = n)"

subsection \<open>The palette\<close>

text \<open>
  \<^verbatim>\<open>makeColor\<close> builds the text \<^verbatim>\<open>rgb(r%, g%, b%)\<close>; the embedding keeps the three numbers
  that the text is printed from.
\<close>

datatype css_color = Rgb jsnum jsnum jsnum

definition makeColor :: "jsnum \<Rightarrow> css_color" where
  "makeColor level = Rgb (js_max level 20) (js_max (js_quot level 2) 10) (js_quot level 4)"

definition makePalette :: "real \<Rightarrow> error + css_color list" where
  "makePalette sz =
     (if array_length_ok sz
      then Inr (map (\<lambda>i. makeColor (js_div (of_int (Math_round (real i * 100))) (sz - 1)))
                 [0..<nat \<lfloor>sz\<rfloor>])
      else Inl RangeError)"

subsection \<open>class Plotter\<close>

text \<open>
  The fields \<^verbatim>\<open>size\<close> and \<^verbatim>\<open>scale\<close> are named \<open>psize\<close> and \<open>pscale\<close>, and
  \<^verbatim>\<open>bounds.min\<close>, \<^verbatim>\<open>bounds.max\<close> are \<open>bounds_min\<close>, \<open>bounds_max\<close>. A recorded point
  \<^verbatim>\<open>{x, y, c}\<close> is a \<open>pixel\<close> with the fields \<open>px\<close>, \<open>py\<close>, \<open>pc\<close>. A colour index is an
  integer: the only caller passes the result of \<^verbatim>\<open>Math.max(0, Math.round(...))\<close>.

  The two arrays \<^verbatim>\<open>zbuf\<close> and \<^verbatim>\<open>points\<close> are maps from the key of an access to the
  value stored under it. A fresh \<^verbatim>\<open>new Array(n)\<close> has no element, so the map is empty
  and a read gives \<^verbatim>\<open>undefined\<close> (\<open>None\<close>); the comparison \<^verbatim>\<open>undefined <= z\<close> is
  false. The key is the number \<^verbatim>\<open>idx\<close> that \<^verbatim>\<open>plot\<close> computes, which JavaScript
  turns into a property name: an integer inside the array is one of its cells, any other
  number (also \<^verbatim>\<open>NaN\<close>) names a property of the array object beside the cells.
\<close>

record pixel =
  px :: jsnum
  py :: jsnum
  pc :: int

record Plotter =
  psize :: real
  bounds_min :: real
  bounds_max :: real
  pscale :: real
  distance :: real
  palette :: "css_color list"
  zbuf :: "jsnum \<rightharpoonup> real"
  points :: "jsnum \<rightharpoonup> pixel"

definition Plotter_reset :: "Plotter \<Rightarrow> error + Plotter" where
  "Plotter_reset p =
     (if array_length_ok (psize p * psize p)
      then Inr (p\<lparr>zbuf := Map.empty, points := Map.empty\<rparr>)
      else Inl RangeError)"

definition Plotter_new :: "real \<Rightarrow> real \<Rightarrow> real \<Rightarrow> css_color list \<Rightarrow> error + Plotter" where
  "Plotter_new sz sc ds pal =
     Plotter_reset
       \<lparr>psize = sz + 1, bounds_min = - sz / 2, bounds_max = sz / 2,
        pscale = sc, distance = ds, palette = pal,
        zbuf = Map.empty, points = Map.empty\<rparr>"

text \<open>
  The tests and expressions of \<^verbatim>\<open>plot\<close>, in the order of the source: the colour test
  (line 92), the projection of a coordinate (lines 95 and 99), the bounds test (lines 96
  and 100), the flat index (line 103) and the depth test (line 104).
\<close>

definition bad_color :: "Plotter \<Rightarrow> int \<Rightarrow> bool" where
  "bad_color p color = (color < 0 \<or> color \<ge> int (length (palette p)))"

definition project :: "Plotter \<Rightarrow> real \<Rightarrow> real \<Rightarrow> jsnum" where
  "project p u w = js_round (js_div (distance p * u) w)"

definition out_of_bounds :: "Plotter \<Rightarrow> jsnum \<Rightarrow> bool" where
  "out_of_bounds p v = (js_lt v (bounds_min p) \<or> js_gt v (bounds_max p))"

definition index :: "Plotter \<Rightarrow> jsnum \<Rightarrow> jsnum \<Rightarrow> jsnum" where
  "index p yp xp =
     js_add (js_mul (js_sub yp (bounds_min p)) (psize p)) (js_sub xp (bounds_min p))"

definition depth_blocks :: "Plotter \<Rightarrow> jsnum \<Rightarrow> real \<Rightarrow> bool" where
  "depth_blocks p idx w = (case zbuf p idx of None \<Rightarrow> False | Some d \<Rightarrow> d \<le> w)"

definition Plotter_plot :: "Plotter \<Rightarrow> Vector \<Rightarrow> int \<Rightarrow> Plotter" where
  "Plotter_plot p point color =
     (if bad_color p color then p
      else let xp = project p (vx point) (vz point) in
        if out_of_bounds p xp then p
        else let yp = project p (vy point) (vz point) in
          if out_of_bounds p yp then p
          else let idx = index p yp xp in
            if depth_blocks p idx (vz point) then p
            else p\<lparr>zbuf := (zbuf p)(idx \<mapsto> vz point),
                   points := (points p)(idx \<mapsto> \<lparr>px = xp, py = yp, pc = color\<rparr>)\<rparr>)"

text \<open>
  A call of \<^verbatim>\<open>plot\<close> is accepted when it passes the colour test and both bounds tests,
  and \<open>pixel_index\<close> is the index it then reads and writes.
\<close>

definition accepted :: "Plotter \<Rightarrow> Vector \<Rightarrow> int \<Rightarrow> bool" where
  "accepted p point color =
     (\<not> bad_color p color
      \<and> \<not> out_of_bounds p (project p (vx point) (vz point))
      \<and> \<not> out_of_bounds p (project p (vy point) (vz point)))"

definition pixel_index :: "Plotter \<Rightarrow> Vector \<Rightarrow> jsnum" where
  "pixel_index p point =
     index p (project p (vy point) (vz point)) (project p (vx point) (vz point))"

text \<open>
  \<^verbatim>\<open>render\<close> sends one \<^verbatim>\<open>fillRect\<close> per recorded point to the canvas and then resets
  the two arrays. The canvas is outside the embedding; what \<^verbatim>\<open>render\<close> leaves in the
  plotter is the reset.
\<close>

definition Plotter_render :: "Plotter \<Rightarrow> error + Plotter" where
  "Plotter_render p = Plotter_reset p"

subsection \<open>class Donut\<close>

text \<open>
  The fields \<^verbatim>\<open>a\<close> and \<^verbatim>\<open>b\<close> are named \<open>ang_a\<close> and \<open>ang_b\<close>; \<^verbatim>\<open>lastTs\<close> is
  \<^verbatim>\<open>null\<close> (\<open>None\<close>) or a number. The canvas, its context and the fields that only
  place the drawing on it (\<^verbatim>\<open>width\<close>, \<^verbatim>\<open>height\<close>, \<^verbatim>\<open>left\<close>, \<^verbatim>\<open>top\<close>) are outside
  the embedding. The arguments of the constructor are the options \<^verbatim>\<open>scale\<close>,
  \<^verbatim>\<open>size\<close>, \<^verbatim>\<open>distance\<close> and \<^verbatim>\<open>colors\<close>, whose defaults are 8, 80, 30 and 10.
\<close>

record Donut =
  plotter :: Plotter
  lastTs :: "real option"
  ang_a :: real
  ang_b :: real
  R1 :: real
  R2 :: real
  CENTER :: Vector
  LIGHT :: Vector
  MAX_COLOR :: real
  PHI_INC :: real
  T_INC :: real
  FPS :: real

definition Donut_new :: "real \<Rightarrow> real \<Rightarrow> real \<Rightarrow> real \<Rightarrow> error + Donut" where
  "Donut_new sc sz ds colors =
     (case makePalette colors of
        Inl e \<Rightarrow> Inl e
      | Inr pal \<Rightarrow>
          (case Plotter_new sz sc ds pal of
             Inl e \<Rightarrow> Inl e
           | Inr pl \<Rightarrow>
               Inr \<lparr>plotter = pl, lastTs = None, ang_a = 1, ang_b = 1, R1 = 1, R2 = 2,
                    CENTER = \<lparr>vx = 0, vy = 0, vz = 5\<rparr>,
                    LIGHT = Vector_normalize \<lparr>vx = 0, vy = - 1, vz = 1\<rparr>,
                    MAX_COLOR = colors - 1,
                    PHI_INC = pi / 160, T_INC = pi / 80, FPS = 60\<rparr>))"

text \<open>
  The body of the inner loop of \<^verbatim>\<open>draw\<close> (lines 187 to 197): the surface point before
  \<^verbatim>\<open>CENTER\<close> is added, the normal, the shading level, and the call of \<^verbatim>\<open>plot\<close>.
\<close>

definition wobble_of :: "Donut \<Rightarrow> Quaternion" where
  "wobble_of d =
     Quaternion_mult (Quaternion_forRotation (ang_b d) Z_AXIS)
                     (Quaternion_forRotation (ang_a d) X_AXIS)"

definition body_of :: "Quaternion \<Rightarrow> real \<Rightarrow> Quaternion" where
  "body_of wobble phi = Quaternion_mult wobble (Quaternion_forRotation phi Y_AXIS)"

definition surface_point :: "Donut \<Rightarrow> Quaternion \<Rightarrow> real \<Rightarrow> Vector" where
  "surface_point d body t =
     (let rim = Quaternion_forRotation t Z_AXIS
      in Quaternion_rotate body
           (Vector_add (Quaternion_rotate rim (Vector_scale X_AXIS (R1 d)))
                       (Vector_scale X_AXIS (R2 d))))"

definition surface_normal :: "Quaternion \<Rightarrow> real \<Rightarrow> Vector" where
  "surface_normal body t =
     (let rim = Quaternion_forRotation t Z_AXIS
      in Quaternion_rotate body (Quaternion_rotate rim X_AXIS))"

definition shade :: "Donut \<Rightarrow> Vector \<Rightarrow> int" where
  "shade d normal = max 0 (Math_round (- Vector_dot (LIGHT d) normal * MAX_COLOR d))"

definition plot_sample :: "Donut \<Rightarrow> Quaternion \<Rightarrow> real \<Rightarrow> Plotter \<Rightarrow> Plotter" where
  "plot_sample d body t pl =
     (let donut = Vector_add (surface_point d body t) (CENTER d);
          normal = surface_normal body t;
          color = shade d normal
      in Plotter_plot pl donut color)"

text \<open>
  The two loops of \<^verbatim>\<open>draw\<close>. A loop whose increment is not positive never ends, so the
  loops are partial functions and \<open>None\<close> is the run that does not return.
\<close>

partial_function (option) t_loop :: "Donut \<Rightarrow> Quaternion \<Rightarrow> real \<Rightarrow> Plotter \<Rightarrow> Plotter option" where
  "t_loop d body t pl =
     (if t < 2 * pi then t_loop d body (t + T_INC d) (plot_sample d body t pl)
      else Some pl)"

partial_function (option) phi_loop :: "Donut \<Rightarrow> Quaternion \<Rightarrow> real \<Rightarrow> Plotter \<Rightarrow> Plotter option" where
  "phi_loop d wobble phi pl =
     (if phi < 2 * pi
      then Option.bind (t_loop d (body_of wobble phi) 0 pl)
             (\<lambda>pl'. phi_loop d wobble (phi + PHI_INC d) pl')
      else Some pl)"

definition Donut_draw :: "Donut \<Rightarrow> (error + Donut) option" where
  "Donut_draw d =
     map_option
       (\<lambda>pl. case Plotter_render pl of
                Inl e \<Rightarrow> Inl e
              | Inr pl' \<Rightarrow> Inr (d\<lparr>plotter := pl'\<rparr>))
       (phi_loop d (wobble_of d) 0 (plotter d))"

text \<open>
  \<^verbatim>\<open>this.lastTs || ts\<close> is \<^verbatim>\<open>ts\<close> when \<^verbatim>\<open>lastTs\<close> is \<^verbatim>\<open>null\<close> and also when it is the
  number \<open>0\<close>, which JavaScript takes for false.
\<close>

definition Donut_update :: "Donut \<Rightarrow> real \<Rightarrow> (error + Donut) option" where
  "Donut_update d ts =
     (let elapsed = ts - (case lastTs d of None \<Rightarrow> ts | Some l \<Rightarrow> if l = 0 then ts else l);
          dt = elapsed * FPS d / 1000
      in Donut_draw (d\<lparr>lastTs := Some ts,
                       ang_a := ang_a d + 0.07 * dt,
                       ang_b := ang_b d + 0.03 * dt\<rparr>))"

subsection \<open>Fixtures\<close>

text \<open>
  The vector \<^verbatim>\<open>new Vector(1e200, 0, 0)\<close>, whose sum of squares overflows. The palette
  \<^verbatim>\<open>makePalette(2)\<close>, the plotter \<^verbatim>\<open>new Plotter(80, 8, 30, makePalette(2))\<close>
  and the donut \<^verbatim>\<open>new Donut(canvas, {colors: 2})\<close>, written out; the lemmas
  \<open>makePalette_2\<close>, \<open>Plotter_new_80\<close> and \<open>Donut_new_default\<close> below evaluate the
  constructors to them.
\<close>

definition long_axis :: Vector where
  "long_axis = \<lparr>vx = 10 ^ 200, vy = 0, vz = 0\<rparr>"

definition palette_2 :: "css_color list" where
  "palette_2 = [Rgb (Num 20) (Num 10) (Num 0), Rgb (Num 100) (Num 50) (Num 25)]"

definition plotter_80 :: Plotter where
  "plotter_80 =
     \<lparr>psize = 81, bounds_min = - 40, bounds_max = 40, pscale = 8, distance = 30,
      palette = palette_2, zbuf = Map.empty, points = Map.empty\<rparr>"

definition donut_80 :: Donut where
  "donut_80 =
     \<lparr>plotter = plotter_80, lastTs = None, ang_a = 1, ang_b = 1, R1 = 1, R2 = 2,
      CENTER = \<lparr>vx = 0, vy = 0, vz = 5\<rparr>,
      LIGHT = Vector_normalize \<lparr>vx = 0, vy = - 1, vz = 1\<rparr>,
      MAX_COLOR = 1, PHI_INC = pi / 160, T_INC = pi / 80, FPS = 60\<rparr>"

section \<open>Vectors and quaternions\<close>

lemmas vq_defs = Vector_scale_def Vector_dot_def Vector_cross_def Vector_add_def
  Quaternion_mult_def Quaternion_conjugate_def Quaternion_rotate_def qnorm2_def

lemma dot_nonneg: "0 \<le> Vector_dot v v"
  by (simp add: Vector_dot_def)

lemma dot_zero_iff: "Vector_dot v v = 0 \<longleftrightarrow> v = \<lparr>vx = 0, vy = 0, vz = 0\<rparr>"
proof (cases v)
  case (fields a b c)
  have "a * a + b * b + c * c = 0 \<longleftrightarrow> a = 0 \<and> b = 0 \<and> c = 0"
    by (metis add_nonneg_eq_0_iff add_nonneg_nonneg zero_le_square mult_eq_0_iff
        mult_zero_left add.right_neutral)
  then show ?thesis using fields by (simp add: Vector_dot_def)
qed

lemma dot_scale: "Vector_dot (Vector_scale u s) (Vector_scale v t) = s * t * Vector_dot u v"
  by (simp add: Vector_scale_def Vector_dot_def algebra_simps)

lemma cross_self_scaled:
  "Vector_cross (Vector_scale n s) (Vector_scale n t) = \<lparr>vx = 0, vy = 0, vz = 0\<rparr>"
  by (simp add: Vector_cross_def Vector_scale_def)

text \<open>The identity of Lagrange gives the inequality of Cauchy and Schwarz.\<close>

lemma dot_cross_identity:
  "Vector_dot u u * Vector_dot v v - Vector_dot u v * Vector_dot u v
   = Vector_dot (Vector_cross u v) (Vector_cross u v)"
  by (simp add: Vector_dot_def Vector_cross_def algebra_simps)

lemma dot_unit_bounds:
  assumes "Vector_dot u u = 1" and "Vector_dot v v = 1"
  shows "- 1 \<le> Vector_dot u v" and "Vector_dot u v \<le> 1"
proof -
  have "Vector_dot u v * Vector_dot u v \<le> 1"
    using dot_cross_identity [of u v] dot_nonneg [of "Vector_cross u v"] assms by simp
  then have "\<bar>Vector_dot u v\<bar> \<le> 1"
    by (metis abs_le_square_iff abs_one mult_1 power2_eq_square)
  then show "- 1 \<le> Vector_dot u v" and "Vector_dot u v \<le> 1" by linarith+
qed

lemma normalize_unit:
  assumes "0 < Vector_dot v v" and "Vector_dot v v < 2 ^ 1024"
  shows "Vector_dot (Vector_normalize v) (Vector_normalize v) = 1"
proof -
  define d where "d = Vector_dot v v"
  have pos: "0 < d" using assms(1) unfolding d_def .
  have nv: "Vector_normalize v = Vector_scale v (1 / sqrt (Vector_dot v v))"
    using assms(2) by (simp add: Vector_normalize_def)
  have "Vector_dot (Vector_normalize v) (Vector_normalize v)
        = (1 / sqrt d) * (1 / sqrt d) * d"
    unfolding nv dot_scale d_def ..
  also have "\<dots> = d / (sqrt d * sqrt d)" by simp
  also have "\<dots> = 1" using pos by simp
  finally show ?thesis .
qed

lemma forRotation_unit:
  assumes "0 < Vector_dot axis axis" and "Vector_dot axis axis < 2 ^ 1024"
  shows "qnorm2 (Quaternion_forRotation angle axis) = 1"
proof -
  have "qnorm2 (Quaternion_forRotation angle axis)
        = cos (angle / 2) * cos (angle / 2) + sin (angle / 2) * sin (angle / 2) * 1"
    using normalize_unit [OF assms]
    by (simp add: qnorm2_def Quaternion_forRotation_def Let_def dot_scale)
  also have "\<dots> = 1"
    using sin_cos_squared_add2 [of "angle / 2"] by (simp add: power2_eq_square)
  finally show ?thesis .
qed

lemma qnorm2_mult: "qnorm2 (Quaternion_mult p q) = qnorm2 p * qnorm2 q"
  by (simp add: vq_defs algebra_simps)

text \<open>The sandwich product multiplies every inner product by the square of the squared
  norm, so a quaternion of norm 1 rotates.\<close>

lemma rotate_dot:
  "Vector_dot (Quaternion_rotate q u) (Quaternion_rotate q v)
   = qnorm2 q * qnorm2 q * Vector_dot u v"
  by (simp add: vq_defs Let_def algebra_simps)

lemma Quaternion_mult_assoc:
  "Quaternion_mult (Quaternion_mult p q) r = Quaternion_mult p (Quaternion_mult q r)"
  by (simp add: Quaternion_mult_def Vector_scale_def Vector_dot_def Vector_cross_def
      Vector_add_def algebra_simps)

lemma conjugate_mult:
  "Quaternion_conjugate (Quaternion_mult p q)
   = Quaternion_mult (Quaternion_conjugate q) (Quaternion_conjugate p)"
  by (simp add: Quaternion_mult_def Quaternion_conjugate_def Vector_scale_def Vector_dot_def
      Vector_cross_def Vector_add_def algebra_simps)

lemma sandwich_pure:
  "Quaternion_mult (Quaternion_mult q \<lparr>scalar = 0, vector = v\<rparr>) (Quaternion_conjugate q)
   = \<lparr>scalar = 0, vector = Quaternion_rotate q v\<rparr>"
  by (simp add: vq_defs Let_def algebra_simps)

text \<open>The rotation by a product applies the right factor first.\<close>

lemma rotate_mult:
  "Quaternion_rotate (Quaternion_mult p q) v = Quaternion_rotate p (Quaternion_rotate q v)"
proof -
  define r where "r = \<lparr>scalar = 0, vector = v\<rparr>"
  define p' where "p' = Quaternion_conjugate p"
  define q' where "q' = Quaternion_conjugate q"
  have "Quaternion_mult (Quaternion_mult (Quaternion_mult p q) r) (Quaternion_mult q' p')
        = Quaternion_mult p (Quaternion_mult q (Quaternion_mult r (Quaternion_mult q' p')))"
    by (simp only: Quaternion_mult_assoc)
  also have "\<dots>
        = Quaternion_mult (Quaternion_mult p (Quaternion_mult (Quaternion_mult q r) q')) p'"
    by (simp only: Quaternion_mult_assoc)
  also have "Quaternion_mult (Quaternion_mult q r) q'
        = \<lparr>scalar = 0, vector = Quaternion_rotate q v\<rparr>"
    unfolding r_def q'_def by (rule sandwich_pure)
  finally have
    "vector (Quaternion_mult (Quaternion_mult (Quaternion_mult p q) r) (Quaternion_mult q' p'))
     = Quaternion_rotate p (Quaternion_rotate q v)"
    unfolding p'_def by (simp only: Quaternion_rotate_def Let_def)
  then show ?thesis
    unfolding r_def p'_def q'_def
    by (simp only: Quaternion_rotate_def Let_def conjugate_mult)
qed

lemma forRotation_mult_same_axis:
  assumes "0 < Vector_dot axis axis" and "Vector_dot axis axis < 2 ^ 1024"
  shows "Quaternion_mult (Quaternion_forRotation \<beta> axis) (Quaternion_forRotation \<alpha> axis)
         = Quaternion_forRotation (\<alpha> + \<beta>) axis"
proof -
  define n where "n = Vector_normalize axis"
  have unit: "Vector_dot n n = 1" unfolding n_def by (rule normalize_unit [OF assms])
  have half: "(\<alpha> + \<beta>) / 2 = \<beta> / 2 + \<alpha> / 2" by simp
  have sc: "cos (\<beta> / 2) * cos (\<alpha> / 2)
            - Vector_dot (Vector_scale n (sin (\<beta> / 2))) (Vector_scale n (sin (\<alpha> / 2)))
            = cos ((\<alpha> + \<beta>) / 2)"
    unfolding half cos_add dot_scale unit by simp
  have vc: "Vector_add
              (Vector_add (Vector_scale (Vector_scale n (sin (\<alpha> / 2))) (cos (\<beta> / 2)))
                          (Vector_scale (Vector_scale n (sin (\<beta> / 2))) (cos (\<alpha> / 2))))
              (Vector_cross (Vector_scale n (sin (\<beta> / 2))) (Vector_scale n (sin (\<alpha> / 2))))
            = Vector_scale n (sin ((\<alpha> + \<beta>) / 2))"
    unfolding half sin_add cross_self_scaled
    by (simp add: Vector_add_def Vector_scale_def algebra_simps)
  show ?thesis
    unfolding Quaternion_forRotation_def Let_def Quaternion_mult_def n_def [symmetric]
    using sc vc by simp
qed

text \<open>
  Where \<^verbatim>\<open>normalize\<close> overflows, \<^verbatim>\<open>forRotation\<close> keeps only the cosine, and the sandwich
  product of such a quaternion scales a vector by the square of that cosine.
\<close>

lemma forRotation_overflow:
  assumes "2 ^ 1024 \<le> Vector_dot axis axis"
  shows "Quaternion_forRotation angle axis
         = \<lparr>scalar = cos (angle / 2), vector = \<lparr>vx = 0, vy = 0, vz = 0\<rparr>\<rparr>"
  using assms
  by (simp add: Quaternion_forRotation_def Let_def Vector_normalize_def Vector_scale_def)

lemma rotate_scalar_only:
  "Quaternion_rotate \<lparr>scalar = c, vector = \<lparr>vx = 0, vy = 0, vz = 0\<rparr>\<rparr> v
   = Vector_scale v (c * c)"
  by (simp add: vq_defs Let_def algebra_simps)

lemma long_axis_overflows: "2 ^ 1024 \<le> Vector_dot long_axis long_axis"
  by (simp add: Vector_dot_def long_axis_def)

lemma long_axis_nonzero: "long_axis \<noteq> \<lparr>vx = 0, vy = 0, vz = 0\<rparr>"
  by (simp add: long_axis_def)

lemma cos_45_squared: "cos (pi / 4) * cos (pi / 4) = 1 / 2"
  by (simp add: cos_45)

lemma range_of_normalize:
  assumes "1 / 2 ^ 1022 \<le> Vector_dot axis axis" and "Vector_dot axis axis \<le> 2 ^ 1023"
  shows "0 < Vector_dot axis axis" and "Vector_dot axis axis < 2 ^ 1024"
proof -
  have "(0::real) < 1 / 2 ^ 1022" by simp
  with assms(1) show "0 < Vector_dot axis axis" by linarith
  have "(2::real) ^ 1023 < 2 ^ 1024" by simp
  with assms(2) show "Vector_dot axis axis < 2 ^ 1024" by linarith
qed

subsection \<open>Rotation preserves magnitude\<close>

text \<open>
  Claim C8, as the program has it. The claim reads: for every vector \<open>v\<close>, every angle
  \<open>\<theta>\<close> and every nonzero axis, the quaternion \<open>q = forRotation(\<theta>, axis)\<close> satisfies
  \<open>|q.rotate(v)| = |v|\<close>. The axis \<open>(10\<^sup>2\<^sup>0\<^sup>0, 0, 0)\<close> is not zero, but its sum of squares
  overflows in \<^verbatim>\<open>normalize\<close>, so \<open>forRotation(\<pi>/2, axis)\<close> is not a unit quaternion and
  halves every vector: the counterexample. The claim holds, in exact arithmetic, where the
  double arithmetic of the program neither overflows nor underflows: for an axis whose sum
  of squares lies from \<open>2\<^sup>-\<^sup>1\<^sup>0\<^sup>2\<^sup>2\<close> (the smallest normal double) to \<open>2\<^sup>1\<^sup>0\<^sup>2\<^sup>3\<close> (half of the
  overflow threshold, so that the rounded sum is finite), and a vector whose components
  are at most \<open>2\<^sup>1\<^sup>0\<^sup>1\<^sup>8\<close> in absolute value (every intermediate sum of the two products of
  \<^verbatim>\<open>rotate\<close> is at most 12 times the largest component, and at most 24 times when two
  rotations follow each other). The magnitude of a vector \<open>w\<close> is \<open>sqrt (w.dot(w))\<close> as in
  \<^verbatim>\<open>normalize\<close>.
\<close>

theorem rotate_preserves_magnitude:
  assumes "1 / 2 ^ 1022 \<le> Vector_dot axis axis" and "Vector_dot axis axis \<le> 2 ^ 1023"
    and "\<bar>vx v\<bar> \<le> 2 ^ 1018" and "\<bar>vy v\<bar> \<le> 2 ^ 1018" and "\<bar>vz v\<bar> \<le> 2 ^ 1018"
  shows "sqrt (Vector_dot (Quaternion_rotate (Quaternion_forRotation \<theta> axis) v)
                          (Quaternion_rotate (Quaternion_forRotation \<theta> axis) v))
         = sqrt (Vector_dot v v)"
  using forRotation_unit [OF range_of_normalize [OF assms(1,2)], of \<theta>]
  by (simp add: rotate_dot)

theorem rotate_preserves_magnitude_witness:
  "1 / 2 ^ 1022 \<le> Vector_dot Z_AXIS Z_AXIS \<and> Vector_dot Z_AXIS Z_AXIS \<le> 2 ^ 1023
   \<and> \<bar>vx \<lparr>vx = 1, vy = 2, vz = 3\<rparr>\<bar> \<le> 2 ^ 1018
   \<and> \<bar>vy \<lparr>vx = 1, vy = 2, vz = 3\<rparr>\<bar> \<le> 2 ^ 1018
   \<and> \<bar>vz \<lparr>vx = 1, vy = 2, vz = 3\<rparr>\<bar> \<le> 2 ^ 1018
   \<and> sqrt (Vector_dot (Quaternion_rotate (Quaternion_forRotation pi Z_AXIS) \<lparr>vx = 1, vy = 2, vz = 3\<rparr>)
                      (Quaternion_rotate (Quaternion_forRotation pi Z_AXIS) \<lparr>vx = 1, vy = 2, vz = 3\<rparr>))
     = sqrt (Vector_dot \<lparr>vx = 1, vy = 2, vz = 3\<rparr> \<lparr>vx = 1, vy = 2, vz = 3\<rparr>)"
proof -
  have a: "1 / 2 ^ 1022 \<le> Vector_dot Z_AXIS Z_AXIS" "Vector_dot Z_AXIS Z_AXIS \<le> 2 ^ 1023"
    by (simp_all add: Vector_dot_def Z_AXIS_def)
  have b: "\<bar>vx \<lparr>vx = 1, vy = 2, vz = 3\<rparr>\<bar> \<le> 2 ^ 1018"
    "\<bar>vy \<lparr>vx = 1, vy = 2, vz = 3\<rparr>\<bar> \<le> 2 ^ 1018"
    "\<bar>vz \<lparr>vx = 1, vy = 2, vz = 3\<rparr>\<bar> \<le> 2 ^ 1018"
    by simp_all
  show ?thesis
    using rotate_preserves_magnitude [OF a b, of pi] a b by blast
qed

text \<open>
  The counterexample to claim C8 as it is stated: the axis \<open>(10\<^sup>2\<^sup>0\<^sup>0, 0, 0)\<close> is not the
  zero vector, and \<open>forRotation(\<pi>/2, axis).rotate\<close> takes the vector \<open>(0, 0, 2)\<close> of
  magnitude 2 to \<open>(0, 0, 1)\<close> of magnitude 1.
\<close>

theorem rotate_preserves_magnitude_counterexample:
  "long_axis \<noteq> \<lparr>vx = 0, vy = 0, vz = 0\<rparr>
   \<and> Quaternion_rotate (Quaternion_forRotation (pi / 2) long_axis)
        \<lparr>vx = 0, vy = 0, vz = 2\<rparr>
     = \<lparr>vx = 0, vy = 0, vz = 1\<rparr>
   \<and> sqrt (Vector_dot \<lparr>vx = 0, vy = 0, vz = 1\<rparr> \<lparr>vx = 0, vy = 0, vz = 1\<rparr>) = 1
   \<and> sqrt (Vector_dot \<lparr>vx = 0, vy = 0, vz = 2\<rparr> \<lparr>vx = 0, vy = 0, vz = 2\<rparr>) = 2"
proof -
  have r: "Quaternion_rotate (Quaternion_forRotation (pi / 2) long_axis)
             \<lparr>vx = 0, vy = 0, vz = 2\<rparr>
           = \<lparr>vx = 0, vy = 0, vz = 1\<rparr>"
    by (simp add: forRotation_overflow [OF long_axis_overflows] rotate_scalar_only
        cos_45_squared Vector_scale_def)
  have "sqrt (2 * 2) = (2::real)" using real_sqrt_abs2 [of 2] by simp
  then have m: "sqrt (Vector_dot \<lparr>vx = 0, vy = 0, vz = 2\<rparr> \<lparr>vx = 0, vy = 0, vz = 2\<rparr>) = 2"
    by (simp add: Vector_dot_def)
  have "sqrt (Vector_dot \<lparr>vx = 0, vy = 0, vz = 1\<rparr> \<lparr>vx = 0, vy = 0, vz = 1\<rparr>) = 1"
    by (simp add: Vector_dot_def)
  with r m long_axis_nonzero show ?thesis by simp
qed

subsection \<open>Rotations about one axis compose by adding their angles\<close>

text \<open>
  Claim C9, as the program has it. The claim reads: for every nonzero axis, all angles
  \<open>\<theta>1\<close>, \<open>\<theta>2\<close> and every vector \<open>v\<close>, the rotation by \<open>forRotation(\<theta>1, axis)\<close> followed
  by the rotation by \<open>forRotation(\<theta>2, axis)\<close>, composed by quaternion multiplication,
  takes \<open>v\<close> to the same vector as the single rotation \<open>forRotation(\<theta>1 + \<theta>2, axis)\<close>. At
  the axis \<open>(10\<^sup>2\<^sup>0\<^sup>0, 0, 0)\<close>, whose sum of squares overflows in \<^verbatim>\<open>normalize\<close>, the two
  rotations by \<open>\<pi>/2\<close> quarter a vector and the single rotation by \<open>\<pi>\<close> takes it to zero:
  the counterexample. The claim holds, in exact arithmetic, for the axes and the vectors
  of claim C8: then the product \<open>forRotation(\<theta>2, axis).mult(forRotation(\<theta>1, axis))\<close>, which
  applies the right factor first, and the two rotations applied one after the other both
  take \<open>v\<close> where \<open>forRotation(\<theta>1 + \<theta>2, axis)\<close> takes it.
\<close>

theorem forRotation_compose_same_axis:
  assumes "1 / 2 ^ 1022 \<le> Vector_dot axis axis" and "Vector_dot axis axis \<le> 2 ^ 1023"
    and "\<bar>vx v\<bar> \<le> 2 ^ 1018" and "\<bar>vy v\<bar> \<le> 2 ^ 1018" and "\<bar>vz v\<bar> \<le> 2 ^ 1018"
  shows "Quaternion_rotate
           (Quaternion_mult (Quaternion_forRotation \<theta>2 axis) (Quaternion_forRotation \<theta>1 axis)) v
         = Quaternion_rotate (Quaternion_forRotation (\<theta>1 + \<theta>2) axis) v
       \<and> Quaternion_rotate (Quaternion_forRotation \<theta>2 axis)
           (Quaternion_rotate (Quaternion_forRotation \<theta>1 axis) v)
         = Quaternion_rotate (Quaternion_forRotation (\<theta>1 + \<theta>2) axis) v"
  using forRotation_mult_same_axis [OF range_of_normalize [OF assms(1,2)], of \<theta>2 \<theta>1]
  by (simp add: rotate_mult [symmetric])

theorem forRotation_compose_same_axis_witness:
  "1 / 2 ^ 1022 \<le> Vector_dot Z_AXIS Z_AXIS \<and> Vector_dot Z_AXIS Z_AXIS \<le> 2 ^ 1023
   \<and> \<bar>vx X_AXIS\<bar> \<le> 2 ^ 1018 \<and> \<bar>vy X_AXIS\<bar> \<le> 2 ^ 1018 \<and> \<bar>vz X_AXIS\<bar> \<le> 2 ^ 1018
   \<and> Quaternion_rotate
       (Quaternion_mult (Quaternion_forRotation (pi / 2) Z_AXIS) (Quaternion_forRotation (pi / 2) Z_AXIS)) X_AXIS
     = Quaternion_rotate (Quaternion_forRotation (pi / 2 + pi / 2) Z_AXIS) X_AXIS
   \<and> Quaternion_rotate (Quaternion_forRotation (pi / 2) Z_AXIS)
       (Quaternion_rotate (Quaternion_forRotation (pi / 2) Z_AXIS) X_AXIS)
     = Quaternion_rotate (Quaternion_forRotation (pi / 2 + pi / 2) Z_AXIS) X_AXIS"
proof -
  have a: "1 / 2 ^ 1022 \<le> Vector_dot Z_AXIS Z_AXIS" "Vector_dot Z_AXIS Z_AXIS \<le> 2 ^ 1023"
    by (simp_all add: Vector_dot_def Z_AXIS_def)
  have b: "\<bar>vx X_AXIS\<bar> \<le> 2 ^ 1018" "\<bar>vy X_AXIS\<bar> \<le> 2 ^ 1018" "\<bar>vz X_AXIS\<bar> \<le> 2 ^ 1018"
    by (simp_all add: X_AXIS_def)
  show ?thesis
    using forRotation_compose_same_axis [OF a b, of "pi / 2" "pi / 2"] a b by blast
qed

text \<open>
  The counterexample to claim C9 as it is stated: at the nonzero axis \<open>(10\<^sup>2\<^sup>0\<^sup>0, 0, 0)\<close>
  the product of two \<open>forRotation(\<pi>/2, axis)\<close> takes \<open>(0, 0, 4)\<close> to \<open>(0, 0, 1)\<close>, and
  \<open>forRotation(\<pi>/2 + \<pi>/2, axis)\<close> takes it to the zero vector.
\<close>

theorem forRotation_compose_same_axis_counterexample:
  "long_axis \<noteq> \<lparr>vx = 0, vy = 0, vz = 0\<rparr>
   \<and> Quaternion_rotate
       (Quaternion_mult (Quaternion_forRotation (pi / 2) long_axis)
                        (Quaternion_forRotation (pi / 2) long_axis))
       \<lparr>vx = 0, vy = 0, vz = 4\<rparr>
     = \<lparr>vx = 0, vy = 0, vz = 1\<rparr>
   \<and> Quaternion_rotate (Quaternion_forRotation (pi / 2 + pi / 2) long_axis)
       \<lparr>vx = 0, vy = 0, vz = 4\<rparr>
     = \<lparr>vx = 0, vy = 0, vz = 0\<rparr>"
proof -
  have q: "Quaternion_forRotation (pi / 2) long_axis
           = \<lparr>scalar = cos (pi / 4), vector = \<lparr>vx = 0, vy = 0, vz = 0\<rparr>\<rparr>"
    by (simp add: forRotation_overflow [OF long_axis_overflows])
  have two: "Quaternion_rotate
       (Quaternion_mult (Quaternion_forRotation (pi / 2) long_axis)
                        (Quaternion_forRotation (pi / 2) long_axis))
       \<lparr>vx = 0, vy = 0, vz = 4\<rparr>
     = \<lparr>vx = 0, vy = 0, vz = 1\<rparr>"
    unfolding rotate_mult q
    by (simp add: rotate_scalar_only cos_45_squared Vector_scale_def)
  have one: "Quaternion_rotate
       (Quaternion_forRotation (pi / 2 + pi / 2) long_axis)
       \<lparr>vx = 0, vy = 0, vz = 4\<rparr>
     = \<lparr>vx = 0, vy = 0, vz = 0\<rparr>"
    by (simp add: forRotation_overflow [OF long_axis_overflows] rotate_scalar_only
        Vector_scale_def)
  from two one long_axis_nonzero show ?thesis by simp
qed

section \<open>The plotter\<close>

lemma plot_rejected: "\<not> accepted p pt c \<Longrightarrow> Plotter_plot p pt c = p"
  by (auto simp: accepted_def Plotter_plot_def Let_def)

lemma plot_accepted:
  "accepted p pt c \<Longrightarrow>
   Plotter_plot p pt c =
     (if depth_blocks p (pixel_index p pt) (vz pt) then p
      else p\<lparr>zbuf := (zbuf p)(pixel_index p pt \<mapsto> vz pt),
             points := (points p)(pixel_index p pt \<mapsto>
                \<lparr>px = project p (vx pt) (vz pt), py = project p (vy pt) (vz pt), pc = c\<rparr>)\<rparr>)"
  by (simp add: accepted_def Plotter_plot_def Let_def pixel_index_def)

lemma accepted_buffers [simp]:
  "accepted (p\<lparr>zbuf := zb, points := pts\<rparr>) pt c = accepted p pt c"
  by (simp add: accepted_def bad_color_def out_of_bounds_def project_def)

lemma pixel_index_buffers [simp]:
  "pixel_index (p\<lparr>zbuf := zb, points := pts\<rparr>) pt = pixel_index p pt"
  by (simp add: pixel_index_def index_def project_def)

lemma plot_buffers_only:
  "\<exists>zb pts. Plotter_plot p pt c = p\<lparr>zbuf := zb, points := pts\<rparr>"
proof -
  have same: "p = p\<lparr>zbuf := zbuf p, points := points p\<rparr>" by simp
  show ?thesis
  proof (cases "accepted p pt c")
    case False
    then have "Plotter_plot p pt c = p" by (rule plot_rejected)
    with same show ?thesis by metis
  next
    case True
    show ?thesis
    proof (cases "depth_blocks p (pixel_index p pt) (vz pt)")
      case True
      with \<open>accepted p pt c\<close> have "Plotter_plot p pt c = p" by (simp add: plot_accepted)
      with same show ?thesis by metis
    next
      case False
      with \<open>accepted p pt c\<close> show ?thesis by (simp add: plot_accepted) blast
    qed
  qed
qed

lemma Plotter_new_fields:
  assumes "Plotter_new sz sc ds pal = Inr p0"
  shows "psize p0 = sz + 1" "bounds_min p0 = - sz / 2" "bounds_max p0 = sz / 2"
    "pscale p0 = sc" "distance p0 = ds" "palette p0 = pal"
    "zbuf p0 = Map.empty" "points p0 = Map.empty"
  using assms by (auto simp: Plotter_new_def Plotter_reset_def split: if_splits)

lemma reset_empty:
  assumes "Plotter_reset p0 = Inr p"
  shows "zbuf p = Map.empty" "points p = Map.empty"
  using assms by (auto simp: Plotter_reset_def split: if_splits)

text \<open>The constructors evaluated at the fixtures.\<close>

lemma makePalette_2: "makePalette 2 = Inr palette_2"
  by (simp add: makePalette_def array_length_ok_def palette_2_def makeColor_def js_div_def
      Math_round_def upt_rec)

lemma Plotter_new_80: "Plotter_new 80 8 30 palette_2 = Inr plotter_80"
  by (simp add: Plotter_new_def Plotter_reset_def array_length_ok_def plotter_80_def)

lemma Plotter_reset_80: "Plotter_reset plotter_80 = Inr plotter_80"
  by (simp add: Plotter_reset_def array_length_ok_def plotter_80_def)

lemma Donut_new_default: "Donut_new 8 80 30 2 = Inr donut_80"
  by (simp add: Donut_new_def makePalette_2 Plotter_new_80 donut_80_def)

lemmas plot_eval = accepted_def bad_color_def out_of_bounds_def project_def js_div_def
  Math_round_def pixel_index_def index_def plotter_80_def palette_2_def

subsection \<open>The closer point wins\<close>

text \<open>
  Claim C2. For every pixel index \<open>i\<close>, every pair of depths \<open>z1 < z2\<close> and any colours:
  two calls of \<^verbatim>\<open>plot\<close> that both pass the colour and the bounds tests and both map to
  the index \<open>i\<close>, made in either order on a plotter whose buffers were just reset, leave
  the depth \<open>z1\<close> stored at \<open>i\<close>; the winner recorded at \<open>i\<close> has the colour of the
  closer point.
\<close>

theorem closer_point_wins:
  assumes "Plotter_reset p0 = Inr p"
    and "vz pt1 < vz pt2"
    and "accepted p pt1 c1" and "accepted p pt2 c2"
    and "pixel_index p pt1 = i" and "pixel_index p pt2 = i"
  shows "zbuf (Plotter_plot (Plotter_plot p pt1 c1) pt2 c2) i = Some (vz pt1)
       \<and> zbuf (Plotter_plot (Plotter_plot p pt2 c2) pt1 c1) i = Some (vz pt1)
       \<and> map_option pc (points (Plotter_plot (Plotter_plot p pt1 c1) pt2 c2) i) = Some c1
       \<and> map_option pc (points (Plotter_plot (Plotter_plot p pt2 c2) pt1 c1) i) = Some c1"
proof -
  have e: "zbuf p i = None" using reset_empty(1) [OF assms(1)] by simp
  have first1: "Plotter_plot p pt1 c1 =
      p\<lparr>zbuf := (zbuf p)(i \<mapsto> vz pt1),
        points := (points p)(i \<mapsto>
          \<lparr>px = project p (vx pt1) (vz pt1), py = project p (vy pt1) (vz pt1), pc = c1\<rparr>)\<rparr>"
    using assms(3,5) e by (simp add: plot_accepted depth_blocks_def)
  have first2: "Plotter_plot p pt2 c2 =
      p\<lparr>zbuf := (zbuf p)(i \<mapsto> vz pt2),
        points := (points p)(i \<mapsto>
          \<lparr>px = project p (vx pt2) (vz pt2), py = project p (vy pt2) (vz pt2), pc = c2\<rparr>)\<rparr>"
    using assms(4,6) e by (simp add: plot_accepted depth_blocks_def)
  have order12: "Plotter_plot (Plotter_plot p pt1 c1) pt2 c2 = Plotter_plot p pt1 c1"
    unfolding first1 using assms(2,4,6) by (simp add: plot_accepted depth_blocks_def)
  have order21: "Plotter_plot (Plotter_plot p pt2 c2) pt1 c1 =
      (Plotter_plot p pt2 c2)\<lparr>zbuf := (zbuf (Plotter_plot p pt2 c2))(i \<mapsto> vz pt1),
        points := (points (Plotter_plot p pt2 c2))(i \<mapsto>
          \<lparr>px = project p (vx pt1) (vz pt1), py = project p (vy pt1) (vz pt1), pc = c1\<rparr>)\<rparr>"
    unfolding first2 using assms(2,3,5)
    by (simp add: plot_accepted depth_blocks_def project_def)
  show ?thesis
    unfolding order12 order21 unfolding first1 by simp
qed

theorem closer_point_wins_witness:
  "Plotter_reset plotter_80 = Inr plotter_80
   \<and> vz \<lparr>vx = 0, vy = 0, vz = 2\<rparr> < vz \<lparr>vx = 0, vy = 0, vz = 3\<rparr>
   \<and> accepted plotter_80 \<lparr>vx = 0, vy = 0, vz = 2\<rparr> 0
   \<and> accepted plotter_80 \<lparr>vx = 0, vy = 0, vz = 3\<rparr> 1
   \<and> pixel_index plotter_80 \<lparr>vx = 0, vy = 0, vz = 2\<rparr> = Num 3280
   \<and> pixel_index plotter_80 \<lparr>vx = 0, vy = 0, vz = 3\<rparr> = Num 3280
   \<and> zbuf (Plotter_plot (Plotter_plot plotter_80 \<lparr>vx = 0, vy = 0, vz = 2\<rparr> 0)
              \<lparr>vx = 0, vy = 0, vz = 3\<rparr> 1) (Num 3280) = Some 2
   \<and> zbuf (Plotter_plot (Plotter_plot plotter_80 \<lparr>vx = 0, vy = 0, vz = 3\<rparr> 1)
              \<lparr>vx = 0, vy = 0, vz = 2\<rparr> 0) (Num 3280) = Some 2"
proof -
  have a1: "accepted plotter_80 \<lparr>vx = 0, vy = 0, vz = 2\<rparr> 0" by (simp add: plot_eval)
  have a2: "accepted plotter_80 \<lparr>vx = 0, vy = 0, vz = 3\<rparr> 1" by (simp add: plot_eval)
  have i1: "pixel_index plotter_80 \<lparr>vx = 0, vy = 0, vz = 2\<rparr> = Num 3280"
    by (simp add: plot_eval)
  have i2: "pixel_index plotter_80 \<lparr>vx = 0, vy = 0, vz = 3\<rparr> = Num 3280"
    by (simp add: plot_eval)
  have lt: "vz \<lparr>vx = 0, vy = 0, vz = 2\<rparr> < vz \<lparr>vx = 0, vy = 0, vz = 3\<rparr>" by simp
  show ?thesis
    using closer_point_wins [OF Plotter_reset_80 lt a1 a2 i1 i2] Plotter_reset_80 a1 a2 i1 i2
    by simp
qed

subsection \<open>A projection outside the grid is dropped\<close>

text \<open>
  Claim C5. For a plotter configured with the grid dimension \<open>size\<close>, in any state of its
  buffers: a call of \<^verbatim>\<open>plot\<close> whose projected pixel coordinate \<open>x\<close> or \<open>y\<close> is below
  \<open>-size/2\<close> or above \<open>size/2\<close> changes nothing; the depth buffer and the winner array
  are as they were.
\<close>

theorem plot_out_of_bounds_noop:
  assumes "Plotter_new sz sc ds pal = Inr p0"
    and "p = p0\<lparr>zbuf := zb, points := pts\<rparr>"
    and "js_lt (project p (vx pt) (vz pt)) (- sz / 2) \<or> js_gt (project p (vx pt) (vz pt)) (sz / 2)
       \<or> js_lt (project p (vy pt) (vz pt)) (- sz / 2) \<or> js_gt (project p (vy pt) (vz pt)) (sz / 2)"
  shows "Plotter_plot p pt c = p"
proof -
  have "bounds_min p = - sz / 2" "bounds_max p = sz / 2"
    using assms(1,2) by (simp_all add: Plotter_new_fields)
  with assms(3) have "\<not> accepted p pt c"
    by (auto simp: accepted_def out_of_bounds_def)
  then show ?thesis by (rule plot_rejected)
qed

theorem plot_out_of_bounds_noop_witness:
  "Plotter_new 80 8 30 palette_2 = Inr plotter_80
   \<and> js_gt (project plotter_80 41 30) (80 / 2)
   \<and> Plotter_plot plotter_80 \<lparr>vx = 41, vy = 0, vz = 30\<rparr> 0 = plotter_80"
proof -
  have g: "js_gt (project plotter_80 41 30) (80 / 2)" by (simp add: plot_eval)
  have "Plotter_plot plotter_80 \<lparr>vx = 41, vy = 0, vz = 30\<rparr> 0 = plotter_80"
    using plot_out_of_bounds_noop [OF Plotter_new_80, of plotter_80 Map.empty Map.empty
        "\<lparr>vx = 41, vy = 0, vz = 30\<rparr>" 0] g
    by (simp add: plotter_80_def)
  with g Plotter_new_80 show ?thesis by simp
qed

subsection \<open>A colour outside the palette is dropped\<close>

text \<open>
  Claim C6. A call of \<^verbatim>\<open>plot\<close> whose shading index is below \<open>0\<close> or above
  \<open>paletteSize - 1\<close> (for example \<open>-1\<close> or \<open>paletteSize\<close>) returns the plotter as it was,
  whatever the point is: the sample is dropped before the point is projected and before
  any write to the depth buffer or the winner array.
\<close>

theorem plot_bad_color_noop:
  assumes "c < 0 \<or> c \<ge> int (length (palette p))"
  shows "Plotter_plot p pt c = p"
  using assms by (simp add: Plotter_plot_def bad_color_def)

theorem plot_bad_color_noop_witness:
  "(- 1 < (0::int) \<or> - 1 \<ge> int (length (palette plotter_80)))
   \<and> Plotter_plot plotter_80 \<lparr>vx = 0, vy = 0, vz = 5\<rparr> (- 1) = plotter_80
   \<and> (2 < (0::int) \<or> 2 \<ge> int (length (palette plotter_80)))
   \<and> Plotter_plot plotter_80 \<lparr>vx = 0, vy = 0, vz = 5\<rparr> 2 = plotter_80"
  using plot_bad_color_noop [of "- 1" plotter_80 "\<lparr>vx = 0, vy = 0, vz = 5\<rparr>"]
    plot_bad_color_noop [of 2 plotter_80 "\<lparr>vx = 0, vy = 0, vz = 5\<rparr>"]
  by (simp add: plotter_80_def palette_2_def)

subsection \<open>The depth test is idempotent\<close>

text \<open>
  Claim C7. For every point (so every pixel and depth \<open>z\<close>) and every colour, in any state
  of the plotter: the same call of \<^verbatim>\<open>plot\<close> made twice leaves the depth buffer and the
  winner array as the call made once does. An accepted call stores \<open>z\<close>, and the second
  call finds the stored depth \<open>\<le> z\<close>; a rejected call changes nothing either time.
\<close>

theorem plot_idempotent: "Plotter_plot (Plotter_plot p pt c) pt c = Plotter_plot p pt c"
proof (cases "accepted p pt c")
  case False
  then show ?thesis by (simp add: plot_rejected)
next
  case True
  show ?thesis
  proof (cases "depth_blocks p (pixel_index p pt) (vz pt)")
    case True
    with \<open>accepted p pt c\<close> show ?thesis by (simp add: plot_accepted)
  next
    case False
    with \<open>accepted p pt c\<close> show ?thesis
      by (simp add: plot_accepted depth_blocks_def)
  qed
qed

subsection \<open>The flat index stays inside the grid\<close>

lemma cell_range:
  fixes h X Y :: int
  assumes "- h \<le> X" "X \<le> h" "- h \<le> Y" "Y \<le> h"
  shows "0 \<le> (Y + h) * (2 * h + 1) + (X + h)"
    and "(Y + h) * (2 * h + 1) + (X + h) < (2 * h + 1) * (2 * h + 1)"
proof -
  have h0: "0 \<le> h" using assms(1,2) by linarith
  have a: "0 \<le> (Y + h) * (2 * h + 1)" using assms(3) h0 by simp
  show "0 \<le> (Y + h) * (2 * h + 1) + (X + h)" using a assms(1) by linarith
  have "(Y + h) * (2 * h + 1) \<le> (2 * h) * (2 * h + 1)"
    using assms(4) h0 by (intro mult_right_mono) auto
  then show "(Y + h) * (2 * h + 1) + (X + h) < (2 * h + 1) * (2 * h + 1)"
    using assms(2) by (simp add: algebra_simps)
qed

lemma cell_inj:
  fixes h X Y X' Y' :: int
  assumes "- h \<le> X" "X \<le> h" "- h \<le> X'" "X' \<le> h"
    and eq: "(Y + h) * (2 * h + 1) + (X + h) = (Y' + h) * (2 * h + 1) + (X' + h)"
  shows "X = X' \<and> Y = Y'"
proof -
  have m: "0 < 2 * h + 1" using assms(1,2) by linarith
  have r: "0 \<le> X + h" "X + h < 2 * h + 1" "0 \<le> X' + h" "X' + h < 2 * h + 1"
    using assms(1-4) by linarith+
  have "((Y + h) * (2 * h + 1) + (X + h)) mod (2 * h + 1) = X + h"
    using r by simp
  moreover have "((Y' + h) * (2 * h + 1) + (X' + h)) mod (2 * h + 1) = X' + h"
    using r by simp
  ultimately have x: "X = X'" using eq by simp
  with eq have "(Y + h) * (2 * h + 1) = (Y' + h) * (2 * h + 1)" by simp
  with m have "Y = Y'" by simp
  with x show ?thesis by simp
qed

lemma project_nonzero:
  "w \<noteq> 0 \<Longrightarrow> project p u w = Num (of_int (Math_round (distance p * u / w)))"
  by (simp add: project_def js_div_def)

lemma in_bounds_int:
  assumes "\<not> out_of_bounds p (Num (of_int X))"
    and "bounds_min p = - of_int h" and "bounds_max p = of_int h"
  shows "- h \<le> X \<and> X \<le> h"
proof -
  have "- real_of_int h \<le> of_int X" "real_of_int X \<le> of_int h"
    using assms by (simp_all add: out_of_bounds_def not_less)
  then show ?thesis by linarith
qed

lemma index_int:
  assumes "bounds_min p = - of_int h" and "psize p = 2 * of_int h + 1"
  shows "index p (Num (of_int Y)) (Num (of_int X))
         = Num (of_int ((Y + h) * (2 * h + 1) + (X + h)))"
  using assms by (simp add: index_def)

text \<open>
  Claim C10, as the program has it. The claim reads: for every grid size with \<open>size/2\<close> an
  integer, every call of \<^verbatim>\<open>plot\<close> that passes the colour and the bounds tests has the
  flat index \<open>(y - min) \<sqdot> (size + 1) + (x - min)\<close> an integer from \<open>0\<close> below
  \<open>(size + 1)\<^sup>2\<close>, and accepted calls with distinct \<open>(x, y)\<close> have distinct indices. A
  point with \<open>z = 0\<close> and \<open>x = 0\<close> projects to \<^verbatim>\<open>NaN\<close>, which passes both bounds tests
  (each comparison is false) and gives the index \<^verbatim>\<open>NaN\<close>: the counterexample. For
  the calls whose point has \<open>z \<noteq> 0\<close> the claim holds: the index is a natural number below
  \<open>(size + 1)\<^sup>2\<close>, two such calls have the same index exactly when they have the same
  pixel coordinates, and \<^verbatim>\<open>plot\<close> adds no key to either array but such an index.
\<close>

theorem plot_index_in_grid:
  assumes new: "Plotter_new sz sc ds pal = Inr p0"
    and half: "sz / 2 = of_int h"
    and p: "p = p0\<lparr>zbuf := zb, points := pts\<rparr>"
    and acc: "accepted p pt c" and acc': "accepted p pt' c'"
    and nz: "vz pt \<noteq> 0" and nz': "vz pt' \<noteq> 0"
  shows "(\<exists>k::nat. pixel_index p pt = Num (real k) \<and> real k < (sz + 1) * (sz + 1))
       \<and> (pixel_index p pt' = pixel_index p pt \<longleftrightarrow>
            project p (vx pt') (vz pt') = project p (vx pt) (vz pt)
          \<and> project p (vy pt') (vz pt') = project p (vy pt) (vz pt))
       \<and> dom (zbuf (Plotter_plot p pt c))
            \<subseteq> dom zb \<union> {Num (real k) |k. real k < (sz + 1) * (sz + 1)}
       \<and> dom (points (Plotter_plot p pt c))
            \<subseteq> dom pts \<union> {Num (real k) |k. real k < (sz + 1) * (sz + 1)}"
proof -
  have sz: "sz = 2 * of_int h" using half by simp
  have f: "bounds_min p = - of_int h" "bounds_max p = of_int h" "psize p = 2 * of_int h + 1"
    using Plotter_new_fields(1-3) [OF new] p sz by simp_all
  define X where "X = Math_round (distance p * vx pt / vz pt)"
  define Y where "Y = Math_round (distance p * vy pt / vz pt)"
  define X' where "X' = Math_round (distance p * vx pt' / vz pt')"
  define Y' where "Y' = Math_round (distance p * vy pt' / vz pt')"
  have pr: "project p (vx pt) (vz pt) = Num (of_int X)"
    "project p (vy pt) (vz pt) = Num (of_int Y)"
    using nz by (simp_all add: project_nonzero X_def Y_def)
  have pr': "project p (vx pt') (vz pt') = Num (of_int X')"
    "project p (vy pt') (vz pt') = Num (of_int Y')"
    using nz' by (simp_all add: project_nonzero X'_def Y'_def)
  have ib: "\<not> out_of_bounds p (Num (of_int X))" "\<not> out_of_bounds p (Num (of_int Y))"
    using acc pr by (simp_all add: accepted_def)
  have b: "- h \<le> X \<and> X \<le> h" "- h \<le> Y \<and> Y \<le> h"
    by (rule in_bounds_int [OF ib(1) f(1) f(2)], rule in_bounds_int [OF ib(2) f(1) f(2)])
  have ib': "\<not> out_of_bounds p (Num (of_int X'))" "\<not> out_of_bounds p (Num (of_int Y'))"
    using acc' pr' by (simp_all add: accepted_def)
  have b': "- h \<le> X' \<and> X' \<le> h" "- h \<le> Y' \<and> Y' \<le> h"
    by (rule in_bounds_int [OF ib'(1) f(1) f(2)], rule in_bounds_int [OF ib'(2) f(1) f(2)])
  define n where "n = (Y + h) * (2 * h + 1) + (X + h)"
  define n' where "n' = (Y' + h) * (2 * h + 1) + (X' + h)"
  have idx: "pixel_index p pt = Num (of_int n)"
    unfolding pixel_index_def pr n_def by (rule index_int [OF f(1) f(3)])
  have idx': "pixel_index p pt' = Num (of_int n')"
    unfolding pixel_index_def pr' n'_def by (rule index_int [OF f(1) f(3)])
  have n0: "0 \<le> n" and n1: "n < (2 * h + 1) * (2 * h + 1)"
    unfolding n_def using cell_range [of h X Y] b by simp_all
  have rn: "real (nat n) = of_int n" using n0 by simp
  have "real_of_int n < of_int ((2 * h + 1) * (2 * h + 1))"
    using n1 by (simp only: of_int_less_iff)
  then have lt: "real (nat n) < (sz + 1) * (sz + 1)" unfolding rn sz by simp
  have range: "\<exists>k::nat. pixel_index p pt = Num (real k) \<and> real k < (sz + 1) * (sz + 1)"
    using idx rn lt by (intro exI [of _ "nat n"]) simp
  have inj: "pixel_index p pt' = pixel_index p pt \<longleftrightarrow>
            project p (vx pt') (vz pt') = project p (vx pt) (vz pt)
          \<and> project p (vy pt') (vz pt') = project p (vy pt) (vz pt)"
  proof
    assume "pixel_index p pt' = pixel_index p pt"
    then have "n' = n" unfolding idx idx' by simp
    then have "X' = X \<and> Y' = Y"
      unfolding n_def n'_def using cell_inj [of h X' X Y' Y] b b' by simp
    then show "project p (vx pt') (vz pt') = project p (vx pt) (vz pt)
          \<and> project p (vy pt') (vz pt') = project p (vy pt) (vz pt)"
      unfolding pr pr' by simp
  next
    assume "project p (vx pt') (vz pt') = project p (vx pt) (vz pt)
          \<and> project p (vy pt') (vz pt') = project p (vy pt) (vz pt)"
    then show "pixel_index p pt' = pixel_index p pt" by (simp add: pixel_index_def)
  qed
  have mem: "pixel_index p pt \<in> {Num (real k) |k. real k < (sz + 1) * (sz + 1)}"
    using range by blast
  have zb: "zbuf p = zb" and pts: "points p = pts" using p by simp_all
  have d1: "dom (zbuf (Plotter_plot p pt c))
            \<subseteq> dom zb \<union> {Num (real k) |k. real k < (sz + 1) * (sz + 1)}"
    using mem zb by (auto simp: plot_accepted [OF acc] split: if_splits)
  have d2: "dom (points (Plotter_plot p pt c))
            \<subseteq> dom pts \<union> {Num (real k) |k. real k < (sz + 1) * (sz + 1)}"
    using mem pts by (auto simp: plot_accepted [OF acc] split: if_splits)
  show ?thesis using range inj d1 d2 by blast
qed

theorem plot_index_in_grid_witness:
  "Plotter_new 80 8 30 palette_2 = Inr plotter_80
   \<and> (80::real) / 2 = of_int 40
   \<and> accepted plotter_80 \<lparr>vx = 1, vy = 1, vz = 2\<rparr> 0
   \<and> accepted plotter_80 \<lparr>vx = 0, vy = 0, vz = 3\<rparr> 1
   \<and> vz \<lparr>vx = 1, vy = 1, vz = 2\<rparr> \<noteq> 0
   \<and> vz \<lparr>vx = 0, vy = 0, vz = 3\<rparr> \<noteq> 0
   \<and> (\<exists>k::nat. pixel_index plotter_80 \<lparr>vx = 1, vy = 1, vz = 2\<rparr> = Num (real k)
         \<and> real k < (80 + 1) * (80 + 1))
   \<and> pixel_index plotter_80 \<lparr>vx = 0, vy = 0, vz = 3\<rparr>
       \<noteq> pixel_index plotter_80 \<lparr>vx = 1, vy = 1, vz = 2\<rparr>"
proof -
  have a1: "accepted plotter_80 \<lparr>vx = 1, vy = 1, vz = 2\<rparr> 0" by (simp add: plot_eval)
  have a2: "accepted plotter_80 \<lparr>vx = 0, vy = 0, vz = 3\<rparr> 1" by (simp add: plot_eval)
  have h: "(80::real) / 2 = of_int 40" by simp
  have e: "plotter_80 = plotter_80\<lparr>zbuf := Map.empty, points := Map.empty\<rparr>"
    by (simp add: plotter_80_def)
  have n1: "vz \<lparr>vx = 1, vy = 1, vz = 2\<rparr> \<noteq> 0" and n2: "vz \<lparr>vx = 0, vy = 0, vz = 3\<rparr> \<noteq> 0"
    by simp_all
  have d: "project plotter_80 (vx \<lparr>vx = 0, vy = 0, vz = 3\<rparr>) (vz \<lparr>vx = 0, vy = 0, vz = 3\<rparr>)
           \<noteq> project plotter_80 (vx \<lparr>vx = 1, vy = 1, vz = 2\<rparr>) (vz \<lparr>vx = 1, vy = 1, vz = 2\<rparr>)"
    by (simp add: plot_eval)
  show ?thesis
    using plot_index_in_grid [OF Plotter_new_80 h e a1 a2 n1 n2] Plotter_new_80 a1 a2 d
    by simp
qed

text \<open>
  The counterexample to claim C10 as it is stated: on the plotter
  \<^verbatim>\<open>new Plotter(80, 8, 30, makePalette(2))\<close>, where \<open>size/2 = 40\<close>, the call
  \<^verbatim>\<open>plot(new Vector(0, 0, 0), 0)\<close> passes the colour test and both bounds tests, its
  index is \<^verbatim>\<open>NaN\<close>, and the depth is stored under that key.
\<close>

theorem plot_index_in_grid_counterexample:
  "Plotter_new 80 8 30 palette_2 = Inr plotter_80
   \<and> (80::real) / 2 = of_int 40
   \<and> accepted plotter_80 \<lparr>vx = 0, vy = 0, vz = 0\<rparr> 0
   \<and> pixel_index plotter_80 \<lparr>vx = 0, vy = 0, vz = 0\<rparr> = NaN
   \<and> zbuf (Plotter_plot plotter_80 \<lparr>vx = 0, vy = 0, vz = 0\<rparr> 0) NaN = Some 0"
proof -
  have a: "accepted plotter_80 \<lparr>vx = 0, vy = 0, vz = 0\<rparr> 0"
    by (simp add: plot_eval)
  have i: "pixel_index plotter_80 \<lparr>vx = 0, vy = 0, vz = 0\<rparr> = NaN"
    by (simp add: plot_eval)
  have "zbuf (Plotter_plot plotter_80 \<lparr>vx = 0, vy = 0, vz = 0\<rparr> 0) NaN = Some 0"
    by (simp add: plot_accepted [OF a] i depth_blocks_def) (simp add: plotter_80_def)
  with a i Plotter_new_80 show ?thesis by simp
qed

section \<open>The torus\<close>

lemma axes_unit:
  "Vector_dot X_AXIS X_AXIS = 1"
  "Vector_dot Y_AXIS Y_AXIS = 1"
  "Vector_dot Z_AXIS Z_AXIS = 1"
  by (simp_all add: Vector_dot_def X_AXIS_def Y_AXIS_def Z_AXIS_def)

lemma forRotation_axes_unit:
  "qnorm2 (Quaternion_forRotation angle X_AXIS) = 1"
  "qnorm2 (Quaternion_forRotation angle Y_AXIS) = 1"
  "qnorm2 (Quaternion_forRotation angle Z_AXIS) = 1"
  by (rule forRotation_unit; simp add: axes_unit)+

lemma normalize_axes:
  "Vector_normalize X_AXIS = X_AXIS"
  "Vector_normalize Y_AXIS = Y_AXIS"
  "Vector_normalize Z_AXIS = Z_AXIS"
  by (simp_all add: Vector_normalize_def axes_unit)
     (simp_all add: Vector_scale_def X_AXIS_def Y_AXIS_def Z_AXIS_def)

lemma wobble_unit: "qnorm2 (wobble_of d) = 1"
  by (simp add: wobble_of_def qnorm2_mult forRotation_axes_unit)

lemma body_unit: "qnorm2 (body_of (wobble_of d) phi) = 1"
  by (simp add: body_of_def qnorm2_mult wobble_unit forRotation_axes_unit)

lemma half_angle:
  fixes t :: real
  shows "cos (t / 2) * cos (t / 2) - sin (t / 2) * sin (t / 2) = cos t"
    and "2 * (sin (t / 2) * cos (t / 2)) = sin t"
  using cos_add [of "t / 2" "t / 2"] sin_add [of "t / 2" "t / 2"] by simp_all

lemma rotate_about_Z:
  "Quaternion_rotate (Quaternion_forRotation t Z_AXIS) \<lparr>vx = r, vy = 0, vz = 0\<rparr>
   = \<lparr>vx = r * cos t, vy = r * sin t, vz = 0\<rparr>"
proof -
  have "Quaternion_rotate (Quaternion_forRotation t Z_AXIS) \<lparr>vx = r, vy = 0, vz = 0\<rparr>
        = \<lparr>vx = r * (cos (t / 2) * cos (t / 2) - sin (t / 2) * sin (t / 2)),
           vy = r * (2 * (sin (t / 2) * cos (t / 2))), vz = 0\<rparr>"
    by (simp add: Quaternion_forRotation_def Let_def normalize_axes)
       (simp add: vq_defs Let_def Z_AXIS_def algebra_simps)
  then show ?thesis by (simp only: half_angle)
qed

lemma rotate_about_Y_fixes_Y:
  "Quaternion_rotate (Quaternion_forRotation phi Y_AXIS) Y_AXIS = Y_AXIS"
proof -
  have "Quaternion_rotate (Quaternion_forRotation phi Y_AXIS) Y_AXIS
        = \<lparr>vx = 0, vy = cos (phi / 2) * cos (phi / 2) + sin (phi / 2) * sin (phi / 2), vz = 0\<rparr>"
    by (simp add: Quaternion_forRotation_def Let_def normalize_axes)
       (simp add: vq_defs Let_def Y_AXIS_def algebra_simps)
  also have "\<dots> = Y_AXIS"
    using sin_cos_squared_add2 [of "phi / 2"] by (simp add: Y_AXIS_def power2_eq_square)
  finally show ?thesis .
qed

text \<open>The point of the tube before the ring and the wobble turn it.\<close>

lemma tube_point:
  "Vector_add (Quaternion_rotate (Quaternion_forRotation t Z_AXIS) (Vector_scale X_AXIS r1))
              (Vector_scale X_AXIS r2)
   = \<lparr>vx = r1 * cos t + r2, vy = r1 * sin t, vz = 0\<rparr>"
proof -
  have "Vector_scale X_AXIS r1 = \<lparr>vx = r1, vy = 0, vz = 0\<rparr>"
    by (simp add: Vector_scale_def X_AXIS_def)
  then show ?thesis
    by (simp add: rotate_about_Z Vector_add_def Vector_scale_def X_AXIS_def)
qed

lemma surface_point_axis_distance:
  "axis_distance (surface_point d (body_of (wobble_of d) phi) t)
                 (Quaternion_rotate (wobble_of d) Y_AXIS)
   = \<bar>R1 d * cos t + R2 d\<bar>"
proof -
  define w where "w = wobble_of d"
  define ring where "ring = Quaternion_forRotation phi Y_AXIS"
  define local where "local = \<lparr>vx = R1 d * cos t + R2 d, vy = R1 d * sin t, vz = 0\<rparr>"
  have wu: "qnorm2 w = 1" unfolding w_def by (rule wobble_unit)
  have ru: "qnorm2 ring = 1" unfolding ring_def by (rule forRotation_axes_unit)
  have p: "surface_point d (body_of w phi) t = Quaternion_rotate w (Quaternion_rotate ring local)"
    by (simp add: surface_point_def Let_def tube_point body_of_def rotate_mult ring_def local_def)
  have pp: "Vector_dot (surface_point d (body_of w phi) t) (surface_point d (body_of w phi) t)
            = Vector_dot local local"
    unfolding p by (simp add: rotate_dot wu ru)
  have "Vector_dot (surface_point d (body_of w phi) t) (Quaternion_rotate w Y_AXIS)
        = Vector_dot (Quaternion_rotate ring local) Y_AXIS"
    unfolding p by (simp add: rotate_dot wu)
  also have "\<dots> = Vector_dot (Quaternion_rotate ring local) (Quaternion_rotate ring Y_AXIS)"
    unfolding ring_def by (simp only: rotate_about_Y_fixes_Y)
  also have "\<dots> = Vector_dot local Y_AXIS" by (simp add: rotate_dot ru)
  finally have pu: "Vector_dot (surface_point d (body_of w phi) t) (Quaternion_rotate w Y_AXIS)
        = R1 d * sin t"
    by (simp add: local_def Vector_dot_def Y_AXIS_def)
  have "Vector_dot local local - R1 d * sin t * (R1 d * sin t)
        = (R1 d * cos t + R2 d) * (R1 d * cos t + R2 d)"
    by (simp add: local_def Vector_dot_def)
  then have "axis_distance (surface_point d (body_of w phi) t) (Quaternion_rotate w Y_AXIS)
        = sqrt ((R1 d * cos t + R2 d) * (R1 d * cos t + R2 d))"
    unfolding axis_distance_def pp pu by simp
  then show ?thesis unfolding w_def by simp
qed

subsection \<open>The radius bound of the torus\<close>

text \<open>
  Claim C3. For every ring angle \<open>phi\<close> and tube angle \<open>t\<close> (so for every pair that a draw
  pass samples) and every orientation \<open>a\<close>, \<open>b\<close>: the surface point that \<^verbatim>\<open>draw\<close>
  computes, before \<^verbatim>\<open>CENTER\<close> is added and before the projection, lies at a distance
  from \<open>R2 - R1\<close> to \<open>R2 + R1\<close> from the ring axis, the line through the centre of the
  torus along the Y axis turned by \<^verbatim>\<open>wobble\<close>. The radii are not negative (the constructor
  sets \<open>R1 = 1\<close> and \<open>R2 = 2\<close>). The distance is \<open>|R2 + R1 cos t|\<close>
  (lemma \<open>surface_point_axis_distance\<close>).
\<close>

theorem surface_point_radius_bounds:
  assumes "0 \<le> R1 d" and "0 \<le> R2 d"
  shows "R2 d - R1 d \<le> axis_distance (surface_point d (body_of (wobble_of d) phi) t)
                                       (Quaternion_rotate (wobble_of d) Y_AXIS)
       \<and> axis_distance (surface_point d (body_of (wobble_of d) phi) t)
                       (Quaternion_rotate (wobble_of d) Y_AXIS) \<le> R2 d + R1 d"
proof -
  have lo: "- R1 d \<le> R1 d * cos t"
    using mult_left_mono [OF cos_ge_minus_one [of t] assms(1)] by simp
  have hi: "R1 d * cos t \<le> R1 d"
    using mult_left_mono [OF cos_le_one [of t] assms(1)] by simp
  show ?thesis
    unfolding surface_point_axis_distance using lo hi assms(2) by (simp add: abs_le_iff)
qed

theorem surface_point_radius_bounds_witness:
  "Donut_new 8 80 30 2 = Inr donut_80
   \<and> 0 \<le> R1 donut_80 \<and> 0 \<le> R2 donut_80
   \<and> R2 donut_80 - R1 donut_80
       \<le> axis_distance (surface_point donut_80 (body_of (wobble_of donut_80) (pi / 160)) (pi / 80))
                        (Quaternion_rotate (wobble_of donut_80) Y_AXIS)
   \<and> axis_distance (surface_point donut_80 (body_of (wobble_of donut_80) (pi / 160)) (pi / 80))
                   (Quaternion_rotate (wobble_of donut_80) Y_AXIS)
       \<le> R2 donut_80 + R1 donut_80"
proof -
  have r: "0 \<le> R1 donut_80" "0 \<le> R2 donut_80" by (simp_all add: donut_80_def)
  show ?thesis
    using surface_point_radius_bounds [OF r, of "pi / 160" "pi / 80"] r Donut_new_default
    by simp
qed

section \<open>Shading\<close>

lemma Math_round_le:
  assumes "x \<le> of_int m"
  shows "Math_round x \<le> m"
proof -
  have "x + 1 / 2 < of_int (m + 1)" using assms by simp
  then have "\<lfloor>x + 1 / 2\<rfloor> < m + 1" by (simp only: floor_less_iff)
  then show ?thesis by (simp add: Math_round_def)
qed

lemma surface_normal_unit:
  "Vector_dot (surface_normal (body_of (wobble_of d) phi) t)
              (surface_normal (body_of (wobble_of d) phi) t) = 1"
  by (simp add: surface_normal_def Let_def rotate_dot body_unit forRotation_axes_unit axes_unit)

subsection \<open>The shading level stays inside the palette\<close>

text \<open>
  Claim C4. For every unit normal \<open>n\<close> and the unit light direction \<open>L\<close>, the shading
  level \<open>max(0, round(-L\<sqdot>n \<sqdot> (paletteSize - 1)))\<close> that \<^verbatim>\<open>draw\<close> computes lies from \<open>0\<close>
  to \<open>paletteSize - 1\<close>, so the colour test of \<^verbatim>\<open>plot\<close> does not reject it. Here
  \<^verbatim>\<open>MAX_COLOR\<close> is \<open>paletteSize - 1\<close> and the palette is not empty, as in every donut that
  the constructor builds from \<open>colors \<ge> 1\<close> (lemma \<open>Donut_new_shading\<close>); the normals
  of a draw pass are unit vectors (lemma \<open>surface_normal_unit\<close>).
\<close>

theorem shade_in_palette:
  assumes "Vector_dot (LIGHT d) (LIGHT d) = 1"
    and "Vector_dot n n = 1"
    and "MAX_COLOR d = real (length (palette (plotter d))) - 1"
    and "palette (plotter d) \<noteq> []"
  shows "0 \<le> shade d n
       \<and> shade d n \<le> int (length (palette (plotter d))) - 1
       \<and> \<not> bad_color (plotter d) (shade d n)"
proof -
  define m where "m = int (length (palette (plotter d))) - 1"
  have m0: "0 \<le> m" using assms(4) unfolding m_def by (cases "palette (plotter d)") simp_all
  have mc: "MAX_COLOR d = of_int m" unfolding m_def assms(3) by simp
  have "- Vector_dot (LIGHT d) n \<le> 1"
    using dot_unit_bounds(1) [OF assms(1,2)] by simp
  then have "- Vector_dot (LIGHT d) n * of_int m \<le> 1 * of_int m"
    using m0 by (intro mult_right_mono) simp_all
  then have "Math_round (- Vector_dot (LIGHT d) n * MAX_COLOR d) \<le> m"
    unfolding mc by (intro Math_round_le) simp
  then have hi: "shade d n \<le> m" using m0 by (simp add: shade_def)
  have lo: "0 \<le> shade d n" by (simp add: shade_def)
  from lo hi show ?thesis unfolding m_def by (simp add: bad_color_def)
qed

lemma makePalette_length:
  assumes "makePalette colors = Inr pal"
  shows "real (length pal) = colors"
proof -
  have ok: "array_length_ok colors" and pal: "length pal = nat \<lfloor>colors\<rfloor>"
    using assms by (auto simp: makePalette_def split: if_splits)
  from ok have "0 \<le> colors" "of_int \<lfloor>colors\<rfloor> = colors" by (simp_all add: array_length_ok_def)
  then show ?thesis unfolding pal by (metis of_nat_nat zero_le_floor)
qed

lemma Donut_new_shading:
  assumes "Donut_new sc sz ds colors = Inr d"
  shows "Vector_dot (LIGHT d) (LIGHT d) = 1"
    and "MAX_COLOR d = real (length (palette (plotter d))) - 1"
    and "real (length (palette (plotter d))) = colors"
proof -
  from assms obtain pal pl where pal: "makePalette colors = Inr pal"
    and pl: "Plotter_new sz sc ds pal = Inr pl"
    and d: "d = \<lparr>plotter = pl, lastTs = None, ang_a = 1, ang_b = 1, R1 = 1, R2 = 2,
                    CENTER = \<lparr>vx = 0, vy = 0, vz = 5\<rparr>,
                    LIGHT = Vector_normalize \<lparr>vx = 0, vy = - 1, vz = 1\<rparr>,
                    MAX_COLOR = colors - 1,
                    PHI_INC = pi / 160, T_INC = pi / 80, FPS = 60\<rparr>"
    by (auto simp: Donut_new_def split: sum.splits)
  have "Vector_dot \<lparr>vx = 0, vy = - 1, vz = 1\<rparr> \<lparr>vx = 0, vy = - 1, vz = 1\<rparr> = 2"
    by (simp add: Vector_dot_def)
  then have "Vector_dot (Vector_normalize \<lparr>vx = 0, vy = - 1, vz = 1\<rparr>)
                        (Vector_normalize \<lparr>vx = 0, vy = - 1, vz = 1\<rparr>) = 1"
    by (intro normalize_unit) simp_all
  then show "Vector_dot (LIGHT d) (LIGHT d) = 1"
    unfolding d by simp
  show "real (length (palette (plotter d))) = colors"
    unfolding d using makePalette_length [OF pal] Plotter_new_fields(6) [OF pl] by simp
  then show "MAX_COLOR d = real (length (palette (plotter d))) - 1"
    unfolding d by simp
qed

theorem shade_in_palette_witness:
  "Donut_new 8 80 30 2 = Inr donut_80
   \<and> Vector_dot (LIGHT donut_80) (LIGHT donut_80) = 1
   \<and> Vector_dot Y_AXIS Y_AXIS = 1
   \<and> MAX_COLOR donut_80 = real (length (palette (plotter donut_80))) - 1
   \<and> palette (plotter donut_80) \<noteq> []
   \<and> 0 \<le> shade donut_80 Y_AXIS
   \<and> shade donut_80 Y_AXIS \<le> int (length (palette (plotter donut_80))) - 1
   \<and> \<not> bad_color (plotter donut_80) (shade donut_80 Y_AXIS)"
proof -
  have l: "Vector_dot (LIGHT donut_80) (LIGHT donut_80) = 1"
    by (rule Donut_new_shading(1) [OF Donut_new_default])
  have n: "Vector_dot Y_AXIS Y_AXIS = 1" by (simp add: Vector_dot_def Y_AXIS_def)
  have m: "MAX_COLOR donut_80 = real (length (palette (plotter donut_80))) - 1"
    by (rule Donut_new_shading(2) [OF Donut_new_default])
  have e: "palette (plotter donut_80) \<noteq> []"
    by (simp add: donut_80_def plotter_80_def palette_2_def)
  show ?thesis
    using shade_in_palette [OF l n m e] Donut_new_default l n m e by simp
qed

section \<open>The animation state\<close>

text \<open>Both loops of \<^verbatim>\<open>draw\<close> return when their increments are positive, and they
  change nothing of the plotter but its two buffers.\<close>

lemma t_loop_returns:
  assumes "0 < T_INC d"
  shows "\<exists>zb pts. t_loop d body t pl = Some (pl\<lparr>zbuf := zb, points := pts\<rparr>)"
proof (induction "nat \<lceil>(2 * pi - t) / T_INC d\<rceil>" arbitrary: t pl rule: less_induct)
  case less
  show ?case
  proof (cases "t < 2 * pi")
    case False
    then have "t_loop d body t pl = Some (pl\<lparr>zbuf := zbuf pl, points := points pl\<rparr>)"
      by (subst t_loop.simps) simp
    then show ?thesis by blast
  next
    case True
    have q: "(2 * pi - (t + T_INC d)) / T_INC d = (2 * pi - t) / T_INC d - 1"
      using assms by (simp add: field_simps)
    have "0 < (2 * pi - t) / T_INC d" using True assms by simp
    then have "0 < \<lceil>(2 * pi - t) / T_INC d\<rceil>" by simp
    then have m: "nat \<lceil>(2 * pi - (t + T_INC d)) / T_INC d\<rceil> < nat \<lceil>(2 * pi - t) / T_INC d\<rceil>"
      unfolding q by simp
    obtain zb1 pts1 where s: "plot_sample d body t pl = pl\<lparr>zbuf := zb1, points := pts1\<rparr>"
      unfolding plot_sample_def Let_def using plot_buffers_only by blast
    from less [OF m] obtain zb pts where
      "t_loop d body (t + T_INC d) (plot_sample d body t pl)
       = Some ((plot_sample d body t pl)\<lparr>zbuf := zb, points := pts\<rparr>)" by blast
    then have "t_loop d body t pl = Some (pl\<lparr>zbuf := zb, points := pts\<rparr>)"
      using True by (subst t_loop.simps) (simp add: s)
    then show ?thesis by blast
  qed
qed

lemma phi_loop_returns:
  assumes "0 < T_INC d" and "0 < PHI_INC d"
  shows "\<exists>zb pts. phi_loop d wobble phi pl = Some (pl\<lparr>zbuf := zb, points := pts\<rparr>)"
proof (induction "nat \<lceil>(2 * pi - phi) / PHI_INC d\<rceil>" arbitrary: phi pl rule: less_induct)
  case less
  show ?case
  proof (cases "phi < 2 * pi")
    case False
    then have "phi_loop d wobble phi pl = Some (pl\<lparr>zbuf := zbuf pl, points := points pl\<rparr>)"
      by (subst phi_loop.simps) simp
    then show ?thesis by blast
  next
    case True
    have q: "(2 * pi - (phi + PHI_INC d)) / PHI_INC d = (2 * pi - phi) / PHI_INC d - 1"
      using assms(2) by (simp add: field_simps)
    have "0 < (2 * pi - phi) / PHI_INC d" using True assms(2) by simp
    then have "0 < \<lceil>(2 * pi - phi) / PHI_INC d\<rceil>" by simp
    then have m: "nat \<lceil>(2 * pi - (phi + PHI_INC d)) / PHI_INC d\<rceil>
                  < nat \<lceil>(2 * pi - phi) / PHI_INC d\<rceil>"
      unfolding q by simp
    obtain zb1 pts1 where
      t: "t_loop d (body_of wobble phi) 0 pl = Some (pl\<lparr>zbuf := zb1, points := pts1\<rparr>)"
      using t_loop_returns [OF assms(1)] by blast
    from less [OF m] obtain zb pts where
      "phi_loop d wobble (phi + PHI_INC d) (pl\<lparr>zbuf := zb1, points := pts1\<rparr>)
       = Some (pl\<lparr>zbuf := zb1, points := pts1\<rparr>\<lparr>zbuf := zb, points := pts\<rparr>)" by blast
    then have "phi_loop d wobble phi pl = Some (pl\<lparr>zbuf := zb, points := pts\<rparr>)"
      using True t by (subst phi_loop.simps) simp
    then show ?thesis by blast
  qed
qed

text \<open>A draw pass returns, and it leaves the donut as it was but for the buffers of the
  plotter, which \<^verbatim>\<open>render\<close> has reset.\<close>

lemma Donut_draw_returns:
  assumes "0 < T_INC d" and "0 < PHI_INC d"
    and "array_length_ok (psize (plotter d) * psize (plotter d))"
  shows "Donut_draw d
         = Some (Inr (d\<lparr>plotter := (plotter d)\<lparr>zbuf := Map.empty, points := Map.empty\<rparr>\<rparr>))"
proof -
  obtain zb pts where
    "phi_loop d (wobble_of d) 0 (plotter d) = Some ((plotter d)\<lparr>zbuf := zb, points := pts\<rparr>)"
    using phi_loop_returns [OF assms(1,2)] by blast
  then show ?thesis
    using assms(3) by (simp add: Donut_draw_def Plotter_render_def Plotter_reset_def)
qed

lemma Donut_update_returns:
  assumes "0 < T_INC d" and "0 < PHI_INC d"
    and "array_length_ok (psize (plotter d) * psize (plotter d))"
  shows "Donut_update d ts
         = Some (Inr (d\<lparr>plotter := (plotter d)\<lparr>zbuf := Map.empty, points := Map.empty\<rparr>,
                        lastTs := Some ts,
                        ang_a := ang_a d + 0.07 *
                          ((ts - (case lastTs d of None \<Rightarrow> ts | Some l \<Rightarrow> if l = 0 then ts else l))
                            * FPS d / 1000),
                        ang_b := ang_b d + 0.03 *
                          ((ts - (case lastTs d of None \<Rightarrow> ts | Some l \<Rightarrow> if l = 0 then ts else l))
                            * FPS d / 1000)\<rparr>))"
  using assms by (simp add: Donut_update_def Let_def Donut_draw_returns)

subsection \<open>The first tick after the timestamp 0\<close>

text \<open>
  Claim C1 reads: when the stored last timestamp is \<open>0\<close> and \<^verbatim>\<open>update\<close> is called with
  the timestamp \<open>16.67\<close> under \<open>FPS = 60\<close>, the frame delta \<open>dt\<close> is about \<open>1.0\<close>,
  and \<open>a\<close> grows by \<open>0.07\<close> and \<open>b\<close> by \<open>0.03\<close>. The program does otherwise: on the donut
  \<^verbatim>\<open>new Donut(canvas, {colors: 2})\<close> with \<^verbatim>\<open>lastTs = 0\<close>, the call \<^verbatim>\<open>update(16.67)\<close>
  returns with \<open>a\<close> and \<open>b\<close> as they were (both \<open>1\<close>) and only \<^verbatim>\<open>lastTs\<close> set to
  \<open>16.67\<close>, because \<^verbatim>\<open>this.lastTs || ts\<close> takes the stored \<open>0\<close> for a missing timestamp
  and makes the elapsed time \<open>0\<close>.
\<close>

theorem update_from_timestamp_zero:
  "Donut_update (donut_80\<lparr>lastTs := Some 0\<rparr>) (1667 / 100)
   = Some (Inr (donut_80\<lparr>lastTs := Some (1667 / 100)\<rparr>))"
proof -
  have "0 < T_INC (donut_80\<lparr>lastTs := Some 0\<rparr>)" "0 < PHI_INC (donut_80\<lparr>lastTs := Some 0\<rparr>)"
    by (simp_all add: donut_80_def)
  moreover have "array_length_ok (psize (plotter (donut_80\<lparr>lastTs := Some 0\<rparr>))
                                 * psize (plotter (donut_80\<lparr>lastTs := Some 0\<rparr>)))"
    by (simp add: donut_80_def plotter_80_def array_length_ok_def)
  ultimately show ?thesis
    by (simp add: Donut_update_returns) (simp add: donut_80_def plotter_80_def)
qed

text \<open>From any stored timestamp other than \<open>0\<close> the same tick advances the angles: one
  millisecond later on both sides, \<open>dt = 1.0002\<close>.\<close>

lemma update_from_timestamp_one:
  "Donut_update (donut_80\<lparr>lastTs := Some 1\<rparr>) (1767 / 100)
   = Some (Inr (donut_80\<lparr>lastTs := Some (1767 / 100),
                          ang_a := 1 + 0.07 * (10002 / 10000),
                          ang_b := 1 + 0.03 * (10002 / 10000)\<rparr>))"
proof -
  have "0 < T_INC (donut_80\<lparr>lastTs := Some 1\<rparr>)" "0 < PHI_INC (donut_80\<lparr>lastTs := Some 1\<rparr>)"
    by (simp_all add: donut_80_def)
  moreover have "array_length_ok (psize (plotter (donut_80\<lparr>lastTs := Some 1\<rparr>))
                                 * psize (plotter (donut_80\<lparr>lastTs := Some 1\<rparr>)))"
    by (simp add: donut_80_def plotter_80_def array_length_ok_def)
  ultimately show ?thesis
    by (simp add: Donut_update_returns) (simp add: donut_80_def plotter_80_def)
qed

end
